theory Spec2Isabelle
  imports Main
begin

section \<open>Object introspection printer (objectdetails.py)\<close>

text \<open>
  A shallow embedding of \<^verbatim>\<open>src/objectdetails.py\<close>. Python strings are
  \<^typ>\<open>string\<close> (one \<^typ>\<open>char\<close> per character, for the characters below 256,
  so \<^const>\<open>length\<close> is Python's \<^verbatim>\<open>len\<close>). Every exception the module can raise is a value of
  \<open>error\<close>; the standard output is the list of the texts handed to \<^verbatim>\<open>print\<close>,
  one element per call, oldest first.
\<close>

subsection \<open>Errors and the output stream\<close>

text \<open>
  \<open>TypeError c h\<close> stands for the message
  \<^verbatim>\<open>Expected {c} column_headers arguments, got {h}.\<close>
\<close>

datatype error = IndexError | TypeError nat nat | ValueError | AttributeError

type_synonym stdout = "string list"

type_synonym action = "stdout \<Rightarrow> (error + unit) \<times> stdout"

definition print :: "string \<Rightarrow> action" where
  "print s out = (Inr (), out @ [s])"

definition raise :: "error \<Rightarrow> action" where
  "raise e out = (Inl e, out)"

text \<open>Two statements in sequence: an exception in the first skips the second.\<close>

definition and_then :: "action \<Rightarrow> action \<Rightarrow> action" where
  "and_then m k out =
     (case m out of
        (Inl e, out') \<Rightarrow> (Inl e, out')
      | (Inr u, out') \<Rightarrow> k out')"

text \<open>A list comprehension whose body can raise: the first exception ends it.\<close>

fun map_res :: "('a \<Rightarrow> error + 'b) \<Rightarrow> 'a list \<Rightarrow> error + 'b list" where
  "map_res f [] = Inr []"
| "map_res f (x # xs) =
     (case f x of
        Inl e \<Rightarrow> Inl e
      | Inr y \<Rightarrow> (case map_res f xs of Inl e \<Rightarrow> Inl e | Inr ys \<Rightarrow> Inr (y # ys)))"

text \<open>\<^verbatim>\<open>filter\<close> with a predicate that can raise.\<close>

fun filter_res :: "('a \<Rightarrow> error + bool) \<Rightarrow> 'a list \<Rightarrow> error + 'a list" where
  "filter_res p [] = Inr []"
| "filter_res p (x # xs) =
     (case p x of
        Inl e \<Rightarrow> Inl e
      | Inr b \<Rightarrow>
          (case filter_res p xs of
             Inl e \<Rightarrow> Inl e
           | Inr ys \<Rightarrow> Inr (if b then x # ys else ys)))"

subsection \<open>Built-ins used by \<^verbatim>\<open>print_table\<close>\<close>

text \<open>
  \<^verbatim>\<open>zip(*rows)\<close>: the columns of the rows, as many as the shortest row has cells;
  no column at all when there is no row.
\<close>

definition zip_star :: "'a list list \<Rightarrow> 'a list list" where
  "zip_star rs =
     (if rs = [] then []
      else map (\<lambda>i. map (\<lambda>r. r ! i) rs) [0..<min_list (map length rs)])"

text \<open>\<^verbatim>\<open>max\<close> of a sequence; the empty sequence raises ValueError.\<close>

definition py_max :: "nat list \<Rightarrow> error + nat" where
  "py_max xs = (case xs of [] \<Rightarrow> Inl ValueError | x # r \<Rightarrow> Inr (fold max r x))"

text \<open>
  A format template is a sequence of pieces: \<open>Field w\<close> is the replacement field
  \<^verbatim>\<open>{:w}\<close>, \<open>Text s\<close> is literal text. \<open>join_pieces\<close> is \<^verbatim>\<open>sep.join\<close> on
  templates.
\<close>

datatype piece = Field nat | Text string

fun join_pieces :: "piece \<Rightarrow> piece list \<Rightarrow> piece list" where
  "join_pieces sep [] = []"
| "join_pieces sep [p] = [p]"
| "join_pieces sep (p # q # ps) = p # sep # join_pieces sep (q # ps)"

text \<open>
  \<^verbatim>\<open>format(s, 'w')\<close> for a string \<open>s\<close>: left-justified, padded with spaces up to
  \<open>w\<close> characters, never truncated. (The spec \<^verbatim>\<open>0\<close> leaves \<open>s\<close> as it is, in
  CPython 3.10 and later.)
\<close>

definition ljust :: "nat \<Rightarrow> string \<Rightarrow> string" where
  "ljust w s = s @ replicate (w - length s) (CHR '' '')"

text \<open>
  \<^verbatim>\<open>template.format(*args)\<close> with automatic field numbering: the \<open>i\<close>-th field takes
  the \<open>i\<close>-th argument and raises IndexError when there is none; arguments left over
  are ignored.
\<close>

fun format_from :: "nat \<Rightarrow> piece list \<Rightarrow> string list \<Rightarrow> error + string" where
  "format_from i [] args = Inr []"
| "format_from i (Text s # ps) args =
     (case format_from i ps args of Inl e \<Rightarrow> Inl e | Inr r \<Rightarrow> Inr (s @ r))"
| "format_from i (Field w # ps) args =
     (if i < length args
      then (case format_from (Suc i) ps args of
              Inl e \<Rightarrow> Inl e
            | Inr r \<Rightarrow> Inr (ljust w (args ! i) @ r))
      else Inl IndexError)"

definition format :: "piece list \<Rightarrow> string list \<Rightarrow> error + string" where
  "format template args = format_from 0 template args"

subsection \<open>\<^verbatim>\<open>print_table\<close>\<close>

definition print_formatted :: "piece list \<Rightarrow> string list \<Rightarrow> action" where
  "print_formatted format_spec args =
     (case format format_spec args of Inl e \<Rightarrow> raise e | Inr line \<Rightarrow> print line)"

fun print_rows :: "piece list \<Rightarrow> string list list \<Rightarrow> action" where
  "print_rows format_spec [] = (\<lambda>out. (Inr (), out))"
| "print_rows format_spec (row # rows) =
     and_then (print_formatted format_spec row) (print_rows format_spec rows)"

definition column_widths :: "string list list \<Rightarrow> error + nat list" where
  "column_widths columns_of_rows =
     map_res (\<lambda>column. py_max (map length column)) columns_of_rows"

definition print_table :: "string list list \<Rightarrow> string list \<Rightarrow> action" where
  "print_table rows column_headers =
     (case rows of
        [] \<Rightarrow> raise IndexError
      | first_row # others \<Rightarrow>
          (let num_of_columns = length first_row;
               num_of_headers = length column_headers
           in if num_of_headers \<noteq> num_of_columns
              then raise (TypeError num_of_columns num_of_headers)
              else
                (let rows_with_headers = column_headers # rows;
                     columns_of_rows = zip_star rows_with_headers
                 in case column_widths columns_of_rows of
                      Inl e \<Rightarrow> raise e
                    | Inr widths \<Rightarrow>
                        (let column_specs = map Field widths;
                             format_spec = join_pieces (Text '' '') column_specs;
                             rules = map (\<lambda>width. replicate width (CHR ''-'')) widths
                         in and_then (print_formatted format_spec column_headers)
                              (and_then (print_formatted format_spec rules)
                                 (print_rows format_spec rows))))))"

subsection \<open>Objects as the reflection built-ins see them\<close>

text \<open>
  A value reached through \<^verbatim>\<open>getattr\<close>: whether \<^verbatim>\<open>callable\<close> accepts it, its
  \<^verbatim>\<open>__name__\<close> (\<open>None\<close>: reading the attribute raises AttributeError), the text of
  \<^verbatim>\<open>inspect.signature\<close> (\<open>None\<close>: the call raises ValueError), its
  \<^verbatim>\<open>__doc__\<close> and the text \<^verbatim>\<open>reprlib.repr\<close> returns for it.

  \<^verbatim>\<open>__doc__\<close> is \<^verbatim>\<open>None\<close> (\<open>NoDoc\<close>), a string (\<open>StrDoc\<close>), or a value of
  another type, which has no \<^verbatim>\<open>splitlines\<close> attribute (\<open>OtherDoc\<close>): the
  \<^verbatim>\<open>__doc__\<close> of \<^verbatim>\<open>type(len)\<close> is a descriptor object.
\<close>

datatype pydoc = NoDoc | StrDoc string | OtherDoc

record pyval =
  callable :: bool
  name_attr :: "string option"
  signature :: "string option"
  doc_attr :: pydoc
  reprlib_repr :: string

text \<open>
  An inspected object: the text of \<^verbatim>\<open>type(obj)\<close>, the result of
  \<^verbatim>\<open>inspect.getdoc(obj)\<close>, the result of \<^verbatim>\<open>obj.__str__()\<close>, the list
  \<^verbatim>\<open>dir(obj)\<close> returns and \<^verbatim>\<open>getattr(obj, name)\<close>, which can raise.
\<close>

record pyobj =
  type_str :: string
  getdoc :: "string option"
  str_form :: string
  dir :: "string list"
  getattr :: "string \<Rightarrow> error + pyval"

text \<open>
  A Python set is modelled by the sequence in which it is iterated. The constructor
  \<^verbatim>\<open>set(iterable)\<close> is a parameter \<open>mkset\<close> of the functions that build sets: the
  language fixes the elements of the result, not their order. \<open>set_model\<close> says that
  \<open>mkset\<close> behaves as a set constructor.
\<close>

definition set_model :: "(string list \<Rightarrow> string list) \<Rightarrow> bool" where
  "set_model mkset = (\<forall>xs. set (mkset xs) = set xs \<and> distinct (mkset xs))"

subsection \<open>\<^verbatim>\<open>full_signature\<close> and \<^verbatim>\<open>brief_documentation\<close>\<close>

text \<open>
  The \<^verbatim>\<open>try\<close> body reads \<^verbatim>\<open>method.__name__\<close> before it calls
  \<^verbatim>\<open>inspect.signature\<close>; only ValueError is caught, and the handler reads
  \<^verbatim>\<open>method.__name__\<close> again.
\<close>

definition full_signature :: "pyval \<Rightarrow> error + string" where
  "full_signature method =
     (case name_attr method of
        None \<Rightarrow> Inl AttributeError
      | Some name \<Rightarrow>
          (case signature method of
             Some sig \<Rightarrow> Inr (name @ '' '' @ sig)
           | None \<Rightarrow>
               (case name_attr method of
                  None \<Rightarrow> Inl AttributeError
                | Some name' \<Rightarrow> Inr (name' @ '' (...)''))))"

text \<open>
  \<^verbatim>\<open>str.splitlines\<close>: the line boundaries among the characters below 256 are
  LF, VT, FF, CR, CR LF, FS, GS, RS and NEL; the boundaries are dropped, and a final
  boundary opens no further line.
\<close>

definition line_boundary :: "char \<Rightarrow> bool" where
  "line_boundary c =
     (c \<in> {CHR 0x0A, CHR 0x0B, CHR 0x0C, CHR 0x0D, CHR 0x1C, CHR 0x1D, CHR 0x1E, CHR 0x85})"

fun splitlines_from :: "string \<Rightarrow> string \<Rightarrow> string list" where
  "splitlines_from acc [] = (if acc = [] then [] else [rev acc])"
| "splitlines_from acc [c] =
     (if line_boundary c then [rev acc] else [rev (c # acc)])"
| "splitlines_from acc (c # d # cs) =
     (if c = CHR 0x0D \<and> d = CHR 0x0A then rev acc # splitlines_from [] cs
      else if line_boundary c then rev acc # splitlines_from [] (d # cs)
      else splitlines_from (c # acc) (d # cs))"

definition splitlines :: "string \<Rightarrow> string list" where
  "splitlines s = splitlines_from [] s"

text \<open>
  \<^verbatim>\<open>doc.splitlines()\<close> is evaluated for every \<^verbatim>\<open>__doc__\<close> that is not
  \<^verbatim>\<open>None\<close>; on a value without that attribute it raises AttributeError.
\<close>

definition brief_documentation :: "pyval \<Rightarrow> error + string" where
  "brief_documentation method =
     (case doc_attr method of
        NoDoc \<Rightarrow> Inr []
      | OtherDoc \<Rightarrow> Inl AttributeError
      | StrDoc doc \<Rightarrow>
          (case splitlines doc of
             [] \<Rightarrow> Inr []
           | line # rest \<Rightarrow> Inr line))"

subsection \<open>The probes\<close>

text \<open>
  \<open>print_attributes_py\<close> and \<open>print_methods_py\<close> are the source's
  \<^verbatim>\<open>print_attributes\<close> and \<^verbatim>\<open>print_methods\<close>; the suffix keeps them apart
  from Isabelle's commands of these names.
\<close>

definition DEFAULT_LENGTH :: nat where
  "DEFAULT_LENGTH = 140"

definition print_section_delimiter :: "nat \<Rightarrow> action" where
  "print_section_delimiter len = print (replicate len (CHR ''=''))"

definition print_type :: "pyobj \<Rightarrow> action" where
  "print_type obj = print (type_str obj)"

text \<open>\<^verbatim>\<open>print(None)\<close> writes the text \<^verbatim>\<open>None\<close>.\<close>

definition print_documentation :: "pyobj \<Rightarrow> action" where
  "print_documentation obj =
     print (case getdoc obj of None \<Rightarrow> ''None'' | Some doc \<Rightarrow> doc)"

definition is_method :: "pyobj \<Rightarrow> string \<Rightarrow> error + bool" where
  "is_method obj atrr_name =
     (case getattr obj atrr_name of Inl e \<Rightarrow> Inl e | Inr v \<Rightarrow> Inr (callable v))"

text \<open>
  The first two statements of both probes: \<^verbatim>\<open>all_attributes\<close> and
  \<^verbatim>\<open>names_of_methods\<close>.
\<close>

definition all_attributes :: "(string list \<Rightarrow> string list) \<Rightarrow> pyobj \<Rightarrow> string list" where
  "all_attributes mkset obj = mkset (dir obj)"

definition names_of_methods ::
  "(string list \<Rightarrow> string list) \<Rightarrow> pyobj \<Rightarrow> error + string list" where
  "names_of_methods mkset obj =
     (case filter_res (is_method obj) (all_attributes mkset obj) of
        Inl e \<Rightarrow> Inl e
      | Inr names \<Rightarrow> Inr (mkset names))"

text \<open>\<^verbatim>\<open>all_attributes - names_of_methods\<close>, a new set.\<close>

definition attributes_excluding_methods ::
  "(string list \<Rightarrow> string list) \<Rightarrow> pyobj \<Rightarrow> error + string list" where
  "attributes_excluding_methods mkset obj =
     (case names_of_methods mkset obj of
        Inl e \<Rightarrow> Inl e
      | Inr methods \<Rightarrow>
          Inr (mkset (filter (\<lambda>name. name \<notin> set methods) (all_attributes mkset obj))))"

definition attributes_names_and_values ::
  "(string list \<Rightarrow> string list) \<Rightarrow> pyobj \<Rightarrow> error + string list list" where
  "attributes_names_and_values mkset obj =
     (case attributes_excluding_methods mkset obj of
        Inl e \<Rightarrow> Inl e
      | Inr names \<Rightarrow>
          map_res (\<lambda>name. case getattr obj name of
                            Inl e \<Rightarrow> Inl e
                          | Inr v \<Rightarrow> Inr [name, reprlib_repr v]) names)"

definition print_attributes_py :: "(string list \<Rightarrow> string list) \<Rightarrow> pyobj \<Rightarrow> action" where
  "print_attributes_py mkset obj =
     (case attributes_names_and_values mkset obj of
        Inl e \<Rightarrow> raise e
      | Inr rows \<Rightarrow> print_table rows [''Name'', ''Value''])"

definition methods_names_and_docs ::
  "(string list \<Rightarrow> string list) \<Rightarrow> pyobj \<Rightarrow> error + string list list" where
  "methods_names_and_docs mkset obj =
     (case names_of_methods mkset obj of
        Inl e \<Rightarrow> Inl e
      | Inr names \<Rightarrow>
          map_res (\<lambda>method_name.
                     case getattr obj method_name of
                       Inl e \<Rightarrow> Inl e
                     | Inr method \<Rightarrow>
                         (case full_signature method of
                            Inl e \<Rightarrow> Inl e
                          | Inr s \<Rightarrow>
                              (case brief_documentation method of
                                 Inl e \<Rightarrow> Inl e
                               | Inr d \<Rightarrow> Inr [s, d]))) names)"

definition print_methods_py :: "(string list \<Rightarrow> string list) \<Rightarrow> pyobj \<Rightarrow> action" where
  "print_methods_py mkset obj =
     (case methods_names_and_docs mkset obj of
        Inl e \<Rightarrow> raise e
      | Inr rows \<Rightarrow> print_table rows [''Name'', ''Description''])"

subsection \<open>The report\<close>

definition print_section :: "pyobj \<Rightarrow> string \<Rightarrow> (pyobj \<Rightarrow> action) \<Rightarrow> action" where
  "print_section obj section_name function_name =
     and_then (print_section_delimiter DEFAULT_LENGTH)
       (and_then (print (section_name @ '':'' @ [CHR 0x0A]))
          (function_name obj))"

text \<open>
  \<^verbatim>\<open>//\<close> rounds down, also below zero, as \<open>div\<close> does on \<^typ>\<open>int\<close>; a string
  times a negative number is empty, as \<^const>\<open>replicate\<close> of \<open>nat n\<close> is.
\<close>

definition print_title :: "pyobj \<Rightarrow> action" where
  "print_title obj =
     (let title = ''Object '' @ [CHR 0x22] @ str_form obj @ [CHR 0x22] @ '' details'';
          num_of_fill_symbols = (int DEFAULT_LENGTH - 4 - int (length title)) div 2;
          fill = replicate (nat num_of_fill_symbols) (CHR ''#'');
          full_title = fill @ ''  '' @ title @ ''  '' @ fill;
          full_title' =
            (if length full_title < DEFAULT_LENGTH
             then full_title @ replicate (DEFAULT_LENGTH - length full_title) (CHR ''#'')
             else full_title)
      in print full_title')"

definition print_object_details :: "(string list \<Rightarrow> string list) \<Rightarrow> pyobj \<Rightarrow> action" where
  "print_object_details mkset obj =
     and_then (print_section obj ''Type'' print_type)
       (and_then (print_section obj ''Documentation'' print_documentation)
          (and_then (print_section obj ''Attributes'' (print_attributes_py mkset))
             (and_then (print_section obj ''Methods'' (print_methods_py mkset))
                (print_section_delimiter DEFAULT_LENGTH))))"

subsection \<open>Descriptions of the printed table\<close>

text \<open>
  \<open>join_space\<close> puts a single space between consecutive segments; \<open>pad_cells\<close>
  formats each cell with the width at the same position. \<open>table_widths\<close> and
  \<open>table_lines\<close> name the widths and the lines that \<open>print_table\<close> computes for a
  call with at least one row, whatever the lengths of the rows.
\<close>

fun join_space :: "string list \<Rightarrow> string" where
  "join_space [] = []"
| "join_space [s] = s"
| "join_space (s # t # ss) = s @ '' '' @ join_space (t # ss)"

definition pad_cells :: "nat list \<Rightarrow> string list \<Rightarrow> string list" where
  "pad_cells ws cells = map (\<lambda>(w, c). ljust w c) (zip ws cells)"

definition table_widths :: "string list list \<Rightarrow> nat list" where
  "table_widths rs = map (\<lambda>column. Max (set (map length column))) (zip_star rs)"

definition table_lines :: "string list \<Rightarrow> string list list \<Rightarrow> string list" where
  "table_lines headers rows =
     (let ws = table_widths (headers # rows)
      in join_space (pad_cells ws headers)
         # join_space (pad_cells ws (map (\<lambda>w. replicate w (CHR ''-'')) ws))
         # map (\<lambda>r. join_space (pad_cells ws r)) rows)"

text \<open>
  The table as the specification words it, for a call in which every row has as many
  cells as there are headers: the width of column \<open>j\<close> is the largest character count
  among the header and the data cells of that column; a line holds each cell followed by
  spaces up to the width of its column, the columns joined by a single space; the rule
  line holds, for each column, \<^verbatim>\<open>-\<close> repeated to the width of the column.
\<close>

definition spec_width :: "string list \<Rightarrow> string list list \<Rightarrow> nat \<Rightarrow> nat" where
  "spec_width headers rows j = Max ((\<lambda>r. length (r ! j)) ` set (headers # rows))"

definition spec_widths :: "string list \<Rightarrow> string list list \<Rightarrow> nat list" where
  "spec_widths headers rows = map (spec_width headers rows) [0..<length headers]"

definition spec_line :: "nat list \<Rightarrow> string list \<Rightarrow> string" where
  "spec_line ws cells =
     join_space (map (\<lambda>j. cells ! j @ replicate (ws ! j - length (cells ! j)) (CHR '' ''))
                   [0..<length ws])"

definition spec_rule :: "nat list \<Rightarrow> string" where
  "spec_rule ws = join_space (map (\<lambda>w. replicate w (CHR ''-'')) ws)"

definition spec_table :: "string list \<Rightarrow> string list list \<Rightarrow> string list" where
  "spec_table headers rows =
     (let ws = spec_widths headers rows
      in spec_line ws headers # spec_rule ws # map (spec_line ws) rows)"

subsection \<open>Descriptions of the probes' tables and of the report\<close>

text \<open>
  \<open>attribute_row\<close> and \<open>method_row\<close> are the rows the comprehensions of
  \<^verbatim>\<open>print_attributes\<close> and \<^verbatim>\<open>print_methods\<close> build for a member name when
  nothing raises; \<open>delimiter_line\<close> is the line of 140 \<^verbatim>\<open>=\<close> that separates the
  sections of the report.
\<close>

definition attribute_row :: "pyobj \<Rightarrow> string \<Rightarrow> string list" where
  "attribute_row obj name = [name, reprlib_repr (projr (getattr obj name))]"

definition method_row :: "pyobj \<Rightarrow> string \<Rightarrow> string list" where
  "method_row obj k =
     (let method = projr (getattr obj k)
      in [projr (full_signature method), projr (brief_documentation method)])"

definition delimiter_line :: string where
  "delimiter_line = replicate 140 (CHR ''='')"

text \<open>
  What a terminal or a file receives: \<^verbatim>\<open>print\<close> writes its text and a line feed.
  The lines written are as many as the line feeds.
\<close>

definition written :: "stdout \<Rightarrow> string" where
  "written out = concat (map (\<lambda>s. s @ [CHR 0x0A]) out)"

definition line_count :: "string \<Rightarrow> nat" where
  "line_count text = length (filter (\<lambda>c. c = CHR 0x0A) text)"

subsection \<open>Sample objects\<close>

text \<open>
  \<open>sample_object\<close> has three callable members, one of them without a signature and
  without documentation, and one data attribute. \<open>sample_unnamed\<close> has a callable
  member without \<^verbatim>\<open>__name__\<close> and without a signature, as
  \<^verbatim>\<open>operator.itemgetter(1)\<close> stored in an attribute is. \<open>sample_class_member\<close>
  lists a member under the name \<^verbatim>\<open>__class__\<close> whose value is a type named
  \<^verbatim>\<open>int\<close>, without a signature.
\<close>

definition sample_object :: pyobj where
  "sample_object =
     \<lparr>type_str = ''<class Meter>'',
      getdoc = Some ''A sample meter.'',
      str_form = ''Meter'',
      dir = [''__class__'', ''fetch'', ''read'', ''unit''],
      getattr = (\<lambda>name.
        if name = ''__class__'' then
          Inr \<lparr>callable = True, name_attr = Some ''Meter'', signature = Some ''(unit)'',
               doc_attr = StrDoc ''A sample meter.'', reprlib_repr = ''<class Meter>''\<rparr>
        else if name = ''fetch'' then
          Inr \<lparr>callable = True, name_attr = Some ''fetch'', signature = None,
               doc_attr = NoDoc, reprlib_repr = ''<built-in method fetch>''\<rparr>
        else if name = ''read'' then
          Inr \<lparr>callable = True, name_attr = Some ''read'', signature = Some ''()'',
               doc_attr = StrDoc (''Read the meter.'' @ [CHR 0x0A] @ ''Returns a number.''),
               reprlib_repr = ''<bound method read>''\<rparr>
        else if name = ''unit'' then
          Inr \<lparr>callable = False, name_attr = None, signature = None,
               doc_attr = NoDoc, reprlib_repr = ''kWh''\<rparr>
        else Inl AttributeError)\<rparr>"

definition sample_unnamed :: pyobj where
  "sample_unnamed =
     \<lparr>type_str = ''<class Job>'',
      getdoc = None,
      str_form = ''Job'',
      dir = [''hook'', ''label''],
      getattr = (\<lambda>name.
        if name = ''hook'' then
          Inr \<lparr>callable = True, name_attr = None, signature = None,
               doc_attr = NoDoc, reprlib_repr = ''operator.itemgetter(1)''\<rparr>
        else if name = ''label'' then
          Inr \<lparr>callable = False, name_attr = None, signature = None,
               doc_attr = NoDoc, reprlib_repr = ''nightly''\<rparr>
        else Inl AttributeError)\<rparr>"



text \<open>
  \<open>sample_moody\<close> has a callable member without \<^verbatim>\<open>__name__\<close> and a member,
  such as a property whose getter raises, on which \<^verbatim>\<open>getattr\<close> raises ValueError.
\<close>

definition sample_moody :: pyobj where
  "sample_moody =
     \<lparr>type_str = ''<class Job>'',
      getdoc = None,
      str_form = ''Job'',
      dir = [''hook'', ''state''],
      getattr = (\<lambda>name.
        if name = ''hook'' then
          Inr \<lparr>callable = True, name_attr = None, signature = None,
               doc_attr = NoDoc, reprlib_repr = ''operator.itemgetter(1)''\<rparr>
        else if name = ''state'' then Inl ValueError
        else Inl AttributeError)\<rparr>"

section \<open>Properties\<close>

subsection \<open>Comprehensions, templates and the row loop\<close>

lemma map_res_Inr:
  "(\<And>x. x \<in> set xs \<Longrightarrow> f x = Inr (g x)) \<Longrightarrow> map_res f xs = Inr (map g xs)"
  by (induction xs) simp_all

lemma format_from_join:
  "i + length ws \<le> length args \<Longrightarrow>
   format_from i (join_pieces (Text '' '') (map Field ws)) args
     = Inr (join_space (pad_cells ws (drop i args)))"
proof (induction ws arbitrary: i rule: induct_list012)
  case 1
  then show ?case by (simp add: pad_cells_def)
next
  case (2 w)
  then obtain a as where "drop i args = a # as" "args ! i = a"
    by (metis Cons_nth_drop_Suc add_Suc_right length_Cons less_eq_Suc_le list.size(3) add_0_right)
  with 2 show ?case by (simp add: pad_cells_def)
next
  case (3 w v ws)
  from 3(3) have lt: "i < length args" by simp
  then have d: "drop i args = args ! i # drop (Suc i) args"
    by (simp add: Cons_nth_drop_Suc)
  from 3(3) have "Suc i < length args" by simp
  then obtain b bs where d2: "drop (Suc i) args = b # bs"
    by (metis Cons_nth_drop_Suc)
  from 3(3) have "Suc i + length (v # ws) \<le> length args" by simp
  from 3(2) [OF this] lt d d2 show ?case
    by (simp add: pad_cells_def)
qed

lemma format_join:
  "length ws \<le> length args \<Longrightarrow>
   format (join_pieces (Text '' '') (map Field ws)) args = Inr (join_space (pad_cells ws args))"
  using format_from_join [of 0 ws args] by (simp add: format_def)

lemma print_rows_ok:
  "(\<And>r. r \<in> set rows \<Longrightarrow> format fs r = Inr (g r)) \<Longrightarrow>
   print_rows fs rows out = (Inr (), out @ map g rows)"
  by (induction rows arbitrary: out)
     (simp_all add: and_then_def print_formatted_def print_def)

subsection \<open>Column widths\<close>

lemma zip_star_column_nonempty: "column \<in> set (zip_star rs) \<Longrightarrow> column \<noteq> []"
  by (auto simp: zip_star_def split: if_splits)

lemma py_max_nonempty: "xs \<noteq> [] \<Longrightarrow> py_max xs = Inr (Max (set xs))"
  by (cases xs) (simp_all add: py_max_def Max.set_eq_fold [symmetric])

lemma column_widths_zip_star: "column_widths (zip_star rs) = Inr (table_widths rs)"
  unfolding column_widths_def table_widths_def
  by (rule map_res_Inr) (simp add: py_max_nonempty zip_star_column_nonempty)

lemma length_table_widths:
  "rs \<noteq> [] \<Longrightarrow> length (table_widths rs) = Min (set (map length rs))"
  by (simp add: table_widths_def zip_star_def min_list_Min)

lemma length_table_widths_le:
  "r \<in> set rs \<Longrightarrow> length (table_widths rs) \<le> length r"
proof -
  assume r: "r \<in> set rs"
  then have "rs \<noteq> []" by auto
  with r show ?thesis by (simp add: length_table_widths)
qed

subsection \<open>A table call whose first row matches the headers\<close>

lemma print_table_runs:
  assumes "rows \<noteq> []" and "length column_headers = length (hd rows)"
  shows "print_table rows column_headers out = (Inr (), out @ table_lines column_headers rows)"
proof -
  obtain r0 rs where rows: "rows = r0 # rs" using assms(1) by (cases rows) auto
  let ?ws = "table_widths (column_headers # rows)"
  let ?fs = "join_pieces (Text '' '') (map Field ?ws)"
  have fmt: "format ?fs r = Inr (join_space (pad_cells ?ws r))"
    if "r \<in> set (column_headers # rows)" for r
    using that by (intro format_join length_table_widths_le)
  have h: "format ?fs column_headers = Inr (join_space (pad_cells ?ws column_headers))"
    by (rule fmt) simp
  have u: "format ?fs (map (\<lambda>w. replicate w (CHR ''-'')) ?ws)
             = Inr (join_space (pad_cells ?ws (map (\<lambda>w. replicate w (CHR ''-'')) ?ws)))"
    by (rule format_join) simp
  have b: "print_rows ?fs rows out' = (Inr (), out' @ map (\<lambda>r. join_space (pad_cells ?ws r)) rows)"
    for out'
    by (rule print_rows_ok) (simp add: fmt)
  show ?thesis
    using assms(2) h u b
    by (simp add: print_table_def rows column_widths_zip_star Let_def and_then_def
        print_formatted_def print_def table_lines_def)
qed

subsection \<open>Rows that all have the header's length\<close>

lemma min_list_uniform:
  "rs \<noteq> [] \<Longrightarrow> (\<And>r. r \<in> set rs \<Longrightarrow> length r = n) \<Longrightarrow> min_list (map length rs) = n"
proof -
  assume ne: "rs \<noteq> []" and u: "\<And>r. r \<in> set rs \<Longrightarrow> length r = n"
  from u have "set (map length rs) \<subseteq> {n}" by auto
  moreover from ne have "set (map length rs) \<noteq> {}" by simp
  ultimately have "set (map length rs) = {n}" by (meson subset_singletonD)
  with ne show ?thesis by (simp add: min_list_Min)
qed

lemma table_widths_uniform:
  assumes "\<And>r. r \<in> set rows \<Longrightarrow> length r = length headers"
  shows "table_widths (headers # rows) = spec_widths headers rows"
proof -
  have "min_list (map length (headers # rows)) = length headers"
    by (rule min_list_uniform) (use assms in auto)
  then show ?thesis
    by (simp add: table_widths_def zip_star_def spec_widths_def spec_width_def image_image
        del: min_list.simps)
qed

lemma pad_cells_nth:
  "length cells = length ws \<Longrightarrow>
   pad_cells ws cells
     = map (\<lambda>j. cells ! j @ replicate (ws ! j - length (cells ! j)) (CHR '' '')) [0..<length ws]"
  by (rule nth_equalityI) (simp_all add: pad_cells_def ljust_def)

lemma pad_cells_rules:
  "pad_cells ws (map (\<lambda>w. replicate w c) ws) = map (\<lambda>w. replicate w c) ws"
  by (rule nth_equalityI) (simp_all add: pad_cells_def ljust_def)

lemma table_lines_uniform:
  assumes "\<And>r. r \<in> set rows \<Longrightarrow> length r = length headers"
  shows "table_lines headers rows = spec_table headers rows"
proof -
  have len: "length (spec_widths headers rows) = length headers"
    by (simp add: spec_widths_def)
  have "join_space (pad_cells (spec_widths headers rows) r) = spec_line (spec_widths headers rows) r"
    if "length r = length headers" for r
    using that len by (simp add: pad_cells_nth spec_line_def)
  then show ?thesis
    using assms
    by (simp add: table_lines_def table_widths_uniform spec_table_def Let_def pad_cells_rules
        spec_rule_def)
qed

lemma cell_le_spec_width:
  "r \<in> set (headers # rows) \<Longrightarrow> length (r ! j) \<le> spec_width headers rows j"
  unfolding spec_width_def by (intro Max_ge) auto

subsection \<open>The characters of the printed lines\<close>

text \<open>
  A printed line holds characters of the headers and the cells, spaces and \<^verbatim>\<open>-\<close>
  only. So when no header and no cell holds a line feed, each \<^verbatim>\<open>print\<close> call of the
  table writes a single line of text, and the lines written are as many as the calls.
\<close>

lemma set_join_space: "set (join_space ss) \<subseteq> (\<Union>s\<in>set ss. set s) \<union> {CHR '' ''}"
  by (induction ss rule: join_space.induct) auto

lemma set_pad_cells:
  assumes "s \<in> set (pad_cells ws cells)"
  shows "set s \<subseteq> (\<Union>c\<in>set cells. set c) \<union> {CHR '' ''}"
proof -
  from assms obtain w c where "(w, c) \<in> set (zip ws cells)" and s: "s = ljust w c"
    by (auto simp: pad_cells_def)
  then have "c \<in> set cells" by (auto dest: set_zip_rightD)
  with s show ?thesis by (auto simp: ljust_def)
qed

lemma set_padded_line:
  "set (join_space (pad_cells ws cells)) \<subseteq> (\<Union>c\<in>set cells. set c) \<union> {CHR '' ''}"
  using set_join_space [of "pad_cells ws cells"] set_pad_cells [of _ ws cells] by blast

lemma table_lines_characters:
  assumes "l \<in> set (table_lines headers rows)"
  shows "set l \<subseteq> (\<Union>r\<in>set (headers # rows). \<Union>c\<in>set r. set c) \<union> {CHR '' '', CHR ''-''}"
proof -
  let ?ws = "table_widths (headers # rows)"
  from assms consider "l = join_space (pad_cells ?ws headers)"
    | "l = join_space (pad_cells ?ws (map (\<lambda>w. replicate w (CHR ''-'')) ?ws))"
    | r where "r \<in> set rows" "l = join_space (pad_cells ?ws r)"
    by (auto simp: table_lines_def Let_def)
  then show ?thesis
  proof cases
    case 1
    with set_padded_line [of ?ws headers] show ?thesis by auto
  next
    case 2
    with set_padded_line [of ?ws "map (\<lambda>w. replicate w (CHR ''-'')) ?ws"] show ?thesis
      by (auto simp: pad_cells_rules)
  next
    case 3
    with set_padded_line [of ?ws r] show ?thesis by auto
  qed
qed

lemma table_lines_no_line_feed:
  assumes "\<And>r c. r \<in> set (headers # rows) \<Longrightarrow> c \<in> set r \<Longrightarrow> CHR 0x0A \<notin> set c"
    and "l \<in> set (table_lines headers rows)"
  shows "CHR 0x0A \<notin> set l"
proof
  assume "CHR 0x0A \<in> set l"
  with table_lines_characters [OF assms(2)]
  have "CHR 0x0A \<in> (\<Union>r\<in>set (headers # rows). \<Union>c\<in>set r. set c) \<union> {CHR '' '', CHR ''-''}"
    by blast
  then obtain r c where "r \<in> set (headers # rows)" "c \<in> set r" "CHR 0x0A \<in> set c"
    by auto
  with assms(1) show False by blast
qed

lemma line_count_append: "line_count (xs @ ys) = line_count xs + line_count ys"
  by (simp add: line_count_def)

lemma line_count_no_line_feed: "CHR 0x0A \<notin> set s \<Longrightarrow> line_count s = 0"
  by (auto simp: line_count_def filter_empty_conv)

lemma line_count_written:
  "(\<And>s. s \<in> set out \<Longrightarrow> CHR 0x0A \<notin> set s) \<Longrightarrow> line_count (written out) = length out"
proof (induction out)
  case Nil
  then show ?case by (simp add: written_def line_count_def)
next
  case (Cons s out)
  have "written (s # out) = (s @ [CHR 0x0A]) @ written out"
    by (simp add: written_def)
  then have "line_count (written (s # out)) = line_count s + 1 + line_count (written out)"
    by (simp add: line_count_append) (simp add: line_count_def)
  with Cons show ?case by (simp add: line_count_no_line_feed)
qed

lemma print_table_rejects:
  "rows \<noteq> [] \<Longrightarrow> length column_headers \<noteq> length (hd rows) \<Longrightarrow>
   print_table rows column_headers out
     = (Inl (TypeError (length (hd rows)) (length column_headers)), out)"
  by (cases rows) (simp_all add: print_table_def raise_def)

subsection \<open>Claims about \<^verbatim>\<open>print_table\<close>\<close>

text \<open>
  C1. The claim: a table call with zero data rows prints the header line and the rule
  line, and the probes render an empty section without raising. The code reads
  \<^verbatim>\<open>rows[0]\<close> before anything else, so with no row it raises IndexError and prints
  nothing, whatever the headers.
\<close>

theorem print_table_zero_rows:
  "print_table [] column_headers out = (Inl IndexError, out)"
  by (simp add: print_table_def raise_def)

text \<open>
  The probes reach that call: \<^verbatim>\<open>print_attributes\<close> on an object whose only member
  is callable, and \<^verbatim>\<open>print_methods\<close> on an object whose only member is not.
\<close>

lemma probes_on_empty_selection:
  "print_attributes_py remdups (sample_unnamed\<lparr>dir := [''hook'']\<rparr>) out = (Inl IndexError, out)
   \<and> print_methods_py remdups (sample_unnamed\<lparr>dir := [''label'']\<rparr>) out = (Inl IndexError, out)"
  by (simp add: print_attributes_py_def attributes_names_and_values_def
      attributes_excluding_methods_def print_methods_py_def methods_names_and_docs_def
      names_of_methods_def all_attributes_def is_method_def sample_unnamed_def print_table_def
      raise_def)

text \<open>
  C3. With at least one row, a header count different from the cell count of the first
  row raises the TypeError, and the output is what it was before the call.
\<close>

theorem print_table_arity_mismatch:
  "rows \<noteq> [] \<Longrightarrow> length column_headers \<noteq> length (hd rows) \<Longrightarrow>
   print_table rows column_headers out
     = (Inl (TypeError (length (hd rows)) (length column_headers)), out)"
  by (rule print_table_rejects)

theorem print_table_arity_mismatch_witness:
  "[[''a'', ''b'']] \<noteq> [] \<and> length [''H''] \<noteq> length (hd [[''a'', ''b'']]) \<and>
   print_table [[''a'', ''b'']] [''H''] [''earlier''] = (Inl (TypeError 2 1), [''earlier''])"
  using print_table_arity_mismatch [of "[[''a'', ''b'']]" "[''H'']" "[''earlier'']"]
  by simp

text \<open>
  C2. The claim: with at least one row, and every row as long as the header row, the
  call prints exactly \<open>length rows + 2\<close> lines. A cell can hold a line feed: here one
  row and two headers give three \<^verbatim>\<open>print\<close> calls, and four lines are written.
\<close>

theorem print_table_line_feed_in_cell:
  "print_table [[''a'' @ [CHR 0x0A] @ ''b'', ''x'']] [''H'', ''V''] []
     = (Inr (), [''H   V'', ''--- -'', ''a'' @ [CHR 0x0A] @ ''b x''])
   \<and> line_count (written [''H   V'', ''--- -'', ''a'' @ [CHR 0x0A] @ ''b x'']) = 4"
  by (simp add: print_table_runs table_lines_def table_widths_def zip_star_def pad_cells_def
      ljust_def written_def line_count_def)

text \<open>
  C2 as amended. With at least one row, every row as long as the header row, and no line
  feed in any header or cell, the call raises nothing and appends exactly the lines of
  \<open>spec_table\<close> to the output: the header line, the rule line, and one line per data row
  in the order of the rows. These are \<open>length rows + 2\<close> texts, and as many lines are
  written. Every cell of every line, padded, is exactly as wide as \<open>spec_width\<close> says
  for its column.
\<close>

theorem print_table_well_formed:
  assumes "rows \<noteq> []" and "\<forall>r\<in>set rows. length r = length column_headers"
    and "\<forall>r\<in>set (column_headers # rows). \<forall>c\<in>set r. CHR 0x0A \<notin> set c"
  shows "print_table rows column_headers out = (Inr (), out @ spec_table column_headers rows)
         \<and> length (spec_table column_headers rows) = length rows + 2
         \<and> line_count (written (spec_table column_headers rows)) = length rows + 2
         \<and> (\<forall>r\<in>set (column_headers # rows). \<forall>j<length column_headers.
               length (r ! j @ replicate (spec_width column_headers rows j - length (r ! j)) (CHR '' ''))
                 = spec_width column_headers rows j)"
proof (intro conjI ballI allI impI)
  have tl: "table_lines column_headers rows = spec_table column_headers rows"
    by (rule table_lines_uniform) (use assms(2) in simp)
  from assms have "length column_headers = length (hd rows)" by (cases rows) auto
  with assms(1) have "print_table rows column_headers out
      = (Inr (), out @ table_lines column_headers rows)"
    by (rule print_table_runs)
  with tl show "print_table rows column_headers out = (Inr (), out @ spec_table column_headers rows)"
    by simp
  show len: "length (spec_table column_headers rows) = length rows + 2"
    by (simp add: spec_table_def Let_def)
  have "CHR 0x0A \<notin> set l" if "l \<in> set (spec_table column_headers rows)" for l
  proof (rule table_lines_no_line_feed)
    show "l \<in> set (table_lines column_headers rows)" using that tl by simp
    show "CHR 0x0A \<notin> set c" if "r \<in> set (column_headers # rows)" "c \<in> set r" for r c
      using assms(3) that by blast
  qed
  then have "line_count (written (spec_table column_headers rows))
      = length (spec_table column_headers rows)"
    by (rule line_count_written)
  with len show "line_count (written (spec_table column_headers rows)) = length rows + 2"
    by simp
next
  fix r j
  assume "r \<in> set (column_headers # rows)"
  then have "length (r ! j) \<le> spec_width column_headers rows j"
    by (rule cell_le_spec_width)
  then show "length (r ! j @ replicate (spec_width column_headers rows j - length (r ! j)) (CHR '' ''))
                 = spec_width column_headers rows j"
    by simp
qed

theorem print_table_well_formed_witness:
  "print_table [[''id'', ''colour''], [''10'', ''red'']] [''Key'', ''V''] [''x'']
     = (Inr (), [''x'', ''Key V     '', ''--- ------'', ''id  colour'', ''10  red   ''])
   \<and> line_count (written (spec_table [''Key'', ''V''] [[''id'', ''colour''], [''10'', ''red'']])) = 4"
  using print_table_well_formed [of "[[''id'', ''colour''], [''10'', ''red'']]" "[''Key'', ''V'']" "[''x'']"]
  by (simp add: spec_table_def spec_widths_def spec_width_def spec_line_def spec_rule_def)

text \<open>
  C4. The claim: a call in which any data row, also one after the first, differs in
  length from the header row is rejected. The code compares the header count with the
  first row only. Here the second row has one cell for two headers, and the call prints
  a table of one column.
\<close>

theorem print_table_tolerates_short_row:
  "print_table [[''a'', ''b''], [''c'']] [''H1'', ''H2''] []
     = (Inr (), [''H1'', ''--'', ''a '', ''c ''])"
  by (simp add: print_table_runs table_lines_def table_widths_def zip_star_def pad_cells_def
      ljust_def)

text \<open>
  C4 as amended. With at least one row, the call is rejected exactly when the first row
  differs in length from the header row. Otherwise it prints \<open>table_lines\<close>, whose
  columns are as many as the shortest among the header row and the data rows has cells.
\<close>

theorem print_table_checks_first_row:
  "rows \<noteq> [] \<Longrightarrow>
   print_table rows column_headers out
     = (if length column_headers \<noteq> length (hd rows)
        then (Inl (TypeError (length (hd rows)) (length column_headers)), out)
        else (Inr (), out @ table_lines column_headers rows))
   \<and> length (table_widths (column_headers # rows))
       = Min (set (map length (column_headers # rows)))"
  by (simp add: print_table_rejects print_table_runs length_table_widths)

theorem print_table_checks_first_row_witness:
  "print_table [[''a'', ''b''], [''c'', ''d'', ''e'']] [''H1'', ''H2''] []
     = (Inr (), [''H1 H2'', ''-- --'', ''a  b '', ''c  d ''])
   \<and> print_table [[''a''], [''c'', ''d'']] [''H1'', ''H2''] [] = (Inl (TypeError 1 2), [])"
  using print_table_checks_first_row [of "[[''a'', ''b''], [''c'', ''d'', ''e'']]" "[''H1'', ''H2'']" "[]"]
    print_table_checks_first_row [of "[[''a''], [''c'', ''d'']]" "[''H1'', ''H2'']" "[]"]
  by (simp add: table_lines_def table_widths_def zip_star_def pad_cells_def ljust_def)

text \<open>
  C8. The claim lists the rule line of the example as four dashes, two spaces, three
  dashes. The first column is five wide, so the code prints five dashes, one space,
  three dashes; the other three lines are as claimed.
\<close>

theorem print_table_example_rule_line:
  "print_table [[''Alice'', ''30''], [''Bob'', ''5'']] [''Name'', ''Age''] []
     \<noteq> (Inr (), [''Name  Age'', ''----  ---'', ''Alice 30 '', ''Bob   5  ''])"
  by (simp add: print_table_runs table_lines_def table_widths_def zip_star_def pad_cells_def
      ljust_def)

theorem print_table_example:
  "print_table [[''Alice'', ''30''], [''Bob'', ''5'']] [''Name'', ''Age''] out
     = (Inr (), out @ [''Name  Age'', ''----- ---'', ''Alice 30 '', ''Bob   5  ''])"
  by (simp add: print_table_runs table_lines_def table_widths_def zip_star_def pad_cells_def
      ljust_def)

subsection \<open>The selection of member names and the rows of the probes\<close>

lemma filter_res_Inr:
  "(\<And>x. x \<in> set xs \<Longrightarrow> p x = Inr (q x)) \<Longrightarrow> filter_res p xs = Inr (filter q xs)"
  by (induction xs) simp_all

lemma filter_res_set:
  "filter_res p xs = Inr ys \<Longrightarrow> set ys = {x \<in> set xs. p x = Inr True}"
proof (induction xs arbitrary: ys)
  case Nil
  then show ?case by simp
next
  case (Cons x xs)
  from Cons.prems obtain b zs where px: "p x = Inr b"
    and r: "filter_res p xs = Inr zs" and ys: "ys = (if b then x # zs else zs)"
    by (simp split: sum.splits)
  from Cons.IH [OF r] have zs: "set zs = {x \<in> set xs. p x = Inr True}" .
  show ?case
  proof (cases b)
    case True
    with px ys zs show ?thesis by auto
  next
    case False
    with px ys zs show ?thesis by auto
  qed
qed


lemma is_method_True:
  "is_method obj n = Inr True \<longleftrightarrow> (\<exists>v. getattr obj n = Inr v \<and> callable v)"
  by (auto simp: is_method_def split: sum.splits)

lemma names_of_methods_set:
  assumes "set_model mkset" and "names_of_methods mkset obj = Inr ms"
  shows "set ms = {n \<in> set (dir obj). \<exists>v. getattr obj n = Inr v \<and> callable v}"
proof -
  from assms(2) obtain names where
    f: "filter_res (is_method obj) (mkset (dir obj)) = Inr names" and ms: "ms = mkset names"
    by (auto simp: names_of_methods_def all_attributes_def split: sum.splits)
  from assms(1) have s: "set (mkset xs) = set xs" for xs by (simp add: set_model_def)
  from filter_res_set [OF f] show ?thesis by (simp add: ms s is_method_True)
qed

lemma names_of_methods_total:
  assumes "\<And>n. n \<in> set (dir obj) \<Longrightarrow> \<exists>v. getattr obj n = Inr v" and "set_model mkset"
  shows "\<exists>ms. names_of_methods mkset obj = Inr ms"
proof -
  from assms(2) have s: "set (mkset xs) = set xs" for xs by (simp add: set_model_def)
  have "is_method obj n = Inr (callable (projr (getattr obj n)))" if "n \<in> set (mkset (dir obj))" for n
    using assms(1) [of n] that by (auto simp: is_method_def s)
  then have "filter_res (is_method obj) (mkset (dir obj))
      = Inr (filter (\<lambda>n. callable (projr (getattr obj n))) (mkset (dir obj)))"
    by (rule filter_res_Inr)
  then show ?thesis by (simp add: names_of_methods_def all_attributes_def)
qed

lemma set_model_remdups: "set_model remdups"
  by (simp add: set_model_def)


lemma map_res_Inr_conv:
  "map_res f xs = Inr ys \<Longrightarrow> ys = map (\<lambda>x. projr (f x)) xs \<and> (\<forall>x\<in>set xs. \<exists>y. f x = Inr y)"
proof (induction xs arbitrary: ys)
  case Nil
  then show ?case by simp
next
  case (Cons a xs)
  from Cons.prems obtain y zs where a: "f a = Inr y" and r: "map_res f xs = Inr zs"
    and ys: "ys = y # zs"
    by (simp split: sum.splits)
  from Cons.IH [OF r] a ys show ?case by simp
qed

lemma print_table_succeeds:
  assumes "print_table rows hs out = (Inr (), out')"
  shows "rows \<noteq> [] \<and> out' = out @ table_lines hs rows"
proof (cases "rows = []")
  case True
  with assms show ?thesis by (simp add: print_table_def raise_def)
next
  case False
  show ?thesis
  proof (cases "length hs = length (hd rows)")
    case True
    with False assms show ?thesis by (simp add: print_table_runs)
  next
    case False
    with \<open>rows \<noteq> []\<close> assms show ?thesis by (simp add: print_table_rejects)
  qed
qed

lemma attributes_rows:
  assumes "attributes_names_and_values mkset obj = Inr rows"
  shows "\<exists>as. attributes_excluding_methods mkset obj = Inr as \<and> rows = map (attribute_row obj) as"
proof -
  let ?row = "\<lambda>name. case getattr obj name of
                        Inl e \<Rightarrow> Inl e
                      | Inr v \<Rightarrow> Inr [name, reprlib_repr v]"
  from assms obtain as where as: "attributes_excluding_methods mkset obj = Inr as"
    and m: "map_res ?row as = Inr rows"
    by (auto simp: attributes_names_and_values_def split: sum.splits)
  from map_res_Inr_conv [OF m]
  have rows: "rows = map (\<lambda>x. projr (?row x)) as" and ok: "\<forall>x\<in>set as. \<exists>y. ?row x = Inr y"
    by auto
  have "projr (?row x) = attribute_row obj x" if "x \<in> set as" for x
  proof -
    from ok that obtain y where y: "?row x = Inr y" by blast
    then obtain u where u: "getattr obj x = Inr u"
      by (cases "getattr obj x") auto
    show ?thesis by (simp add: u attribute_row_def)
  qed
  with rows have "rows = map (attribute_row obj) as" by simp
  with as show ?thesis by blast
qed

lemma methods_rows:
  assumes "methods_names_and_docs mkset obj = Inr rows"
  shows "\<exists>ms. names_of_methods mkset obj = Inr ms \<and> rows = map (method_row obj) ms"
proof -
  let ?row = "\<lambda>method_name.
                case getattr obj method_name of
                  Inl e \<Rightarrow> Inl e
                | Inr method \<Rightarrow>
                    (case full_signature method of
                       Inl e \<Rightarrow> Inl e
                     | Inr s \<Rightarrow>
                         (case brief_documentation method of
                            Inl e \<Rightarrow> Inl e
                          | Inr d \<Rightarrow> Inr [s, d]))"
  from assms obtain ms where ms: "names_of_methods mkset obj = Inr ms"
    and m: "map_res ?row ms = Inr rows"
    by (auto simp: methods_names_and_docs_def split: sum.splits)
  from map_res_Inr_conv [OF m]
  have rows: "rows = map (\<lambda>x. projr (?row x)) ms" and ok: "\<forall>x\<in>set ms. \<exists>y. ?row x = Inr y"
    by auto
  have "projr (?row x) = method_row obj x" if "x \<in> set ms" for x
  proof -
    from ok that obtain y where y: "?row x = Inr y" by blast
    then obtain u where u: "getattr obj x = Inr u"
      by (cases "getattr obj x") auto
    with y obtain sg where sg: "full_signature u = Inr sg"
      by (cases "full_signature u") auto
    with y u obtain dd where dd: "brief_documentation u = Inr dd"
      by (cases "brief_documentation u") auto
    show ?thesis by (simp add: u sg dd method_row_def Let_def)
  qed
  with rows have "rows = map (method_row obj) ms" by simp
  with ms show ?thesis by blast
qed








lemma print_attributes_succeeds:
  assumes "set_model mkset"
    and "\<forall>k\<in>set (dir obj). \<exists>u. getattr obj k = Inr u"
    and "n \<in> set (dir obj)" and "getattr obj n = Inr v" and "\<not> callable v"
  shows "\<exists>as. attributes_excluding_methods mkset obj = Inr as
           \<and> print_attributes_py mkset obj out
               = (Inr (), out @ table_lines [''Name'', ''Value''] (map (attribute_row obj) as))"
proof -
  from assms(1) have s: "set (mkset xs) = set xs" for xs by (simp add: set_model_def)
  from assms(2) have res: "\<exists>u. getattr obj k = Inr u" if "k \<in> set (dir obj)" for k
    using that by blast
  then obtain ms where ms: "names_of_methods mkset obj = Inr ms"
    using names_of_methods_total [of obj mkset] assms(1) by blast
  have sm: "set ms = {k \<in> set (dir obj). \<exists>u. getattr obj k = Inr u \<and> callable u}"
    using assms(1) ms by (rule names_of_methods_set)
  define as where "as = mkset (filter (\<lambda>name. name \<notin> set ms) (mkset (dir obj)))"
  have as: "attributes_excluding_methods mkset obj = Inr as"
    by (simp add: attributes_excluding_methods_def ms all_attributes_def as_def)
  have sa: "set as = set (dir obj) - set ms" by (auto simp: as_def s)
  let ?row = "\<lambda>name. case getattr obj name of
                        Inl e \<Rightarrow> Inl e
                      | Inr v \<Rightarrow> Inr [name, reprlib_repr v]"
  have "?row k = Inr (attribute_row obj k)" if "k \<in> set as" for k
  proof -
    from that sa have "k \<in> set (dir obj)" by simp
    from res [OF this] obtain u where "getattr obj k = Inr u" by blast
    then show ?thesis by (simp add: attribute_row_def)
  qed
  then have "map_res ?row as = Inr (map (attribute_row obj) as)"
    by (rule map_res_Inr)
  then have rows: "attributes_names_and_values mkset obj = Inr (map (attribute_row obj) as)"
    by (simp add: attributes_names_and_values_def as)
  from assms(3-5) have "n \<in> set as" by (auto simp: sa sm)
  then have ne: "map (attribute_row obj) as \<noteq> []" by auto
  then have "length (hd (map (attribute_row obj) as)) = 2"
    by (cases as) (simp_all add: attribute_row_def)
  then have "print_table (map (attribute_row obj) as) [''Name'', ''Value''] out
      = (Inr (), out @ table_lines [''Name'', ''Value''] (map (attribute_row obj) as))"
    using ne by (intro print_table_runs) simp_all
  with rows as show ?thesis by (simp add: print_attributes_py_def)
qed

subsection \<open>Claims about the probes\<close>

text \<open>
  C6. The claim: for any object the two probes select disjoint name sets whose union is
  \<^verbatim>\<open>dir(obj)\<close>, so that no member is in both tables and none is dropped. On
  \<open>sample_unnamed\<close> the member \<^verbatim>\<open>hook\<close> is listed by \<^verbatim>\<open>dir\<close>, the attributes
  table holds the other member only, and \<^verbatim>\<open>print_methods\<close> raises before it prints a
  table: \<^verbatim>\<open>hook\<close> is in neither table. On \<open>sample_moody\<close> a call of
  \<^verbatim>\<open>getattr\<close> raises, and neither probe selects a set of names.
\<close>

theorem unnamed_member_reaches_no_table:
  "''hook'' \<in> set (dir sample_unnamed)
   \<and> print_attributes_py remdups sample_unnamed []
       = (Inr (), [''Name  Value  '', ''----- -------'', ''label nightly''])
   \<and> print_methods_py remdups sample_unnamed [] = (Inl AttributeError, [])
   \<and> names_of_methods remdups sample_moody = Inl ValueError
   \<and> attributes_excluding_methods remdups sample_moody = Inl ValueError"
  by (simp add: print_attributes_py_def attributes_names_and_values_def
      attributes_excluding_methods_def print_methods_py_def methods_names_and_docs_def
      names_of_methods_def all_attributes_def is_method_def full_signature_def
      sample_unnamed_def sample_moody_def raise_def print_table_runs table_lines_def
      table_widths_def zip_star_def pad_cells_def ljust_def)

text \<open>
  C6 as amended. On an object on which both probes succeed, the attributes table holds
  one row for each name in \<open>as\<close> and the methods table one row for each name in \<open>ms\<close>,
  where \<open>as\<close> and \<open>ms\<close> are the sets the probes select: they have no name in common,
  together they are the names \<^verbatim>\<open>dir\<close> returned, and \<open>ms\<close> holds exactly the names
  that resolve to a callable value. (\<open>print_attributes_succeeds\<close> and C7 say when the
  probes succeed.)
\<close>

theorem probes_partition_members:
  assumes "set_model mkset"
    and "print_attributes_py mkset obj out = (Inr (), out_a)"
    and "print_methods_py mkset obj out' = (Inr (), out_m)"
  shows "\<exists>as ms. attributes_excluding_methods mkset obj = Inr as
           \<and> names_of_methods mkset obj = Inr ms
           \<and> distinct as \<and> distinct ms
           \<and> set as \<inter> set ms = {} \<and> set as \<union> set ms = set (dir obj)
           \<and> set ms = {n \<in> set (dir obj). \<exists>v. getattr obj n = Inr v \<and> callable v}
           \<and> out_a = out @ table_lines [''Name'', ''Value''] (map (attribute_row obj) as)
           \<and> out_m = out' @ table_lines [''Name'', ''Description''] (map (method_row obj) ms)"
proof -
  from assms(1) have s: "set (mkset xs) = set xs" and d: "distinct (mkset xs)" for xs
    by (simp_all add: set_model_def)
  from assms(2) obtain rows_a where ra: "attributes_names_and_values mkset obj = Inr rows_a"
    and pa: "print_table rows_a [''Name'', ''Value''] out = (Inr (), out_a)"
    by (cases "attributes_names_and_values mkset obj")
       (simp_all add: print_attributes_py_def raise_def)
  from assms(3) obtain rows_m where rm: "methods_names_and_docs mkset obj = Inr rows_m"
    and pm: "print_table rows_m [''Name'', ''Description''] out' = (Inr (), out_m)"
    by (cases "methods_names_and_docs mkset obj")
       (simp_all add: print_methods_py_def raise_def)
  from attributes_rows [OF ra] obtain as where
    as: "attributes_excluding_methods mkset obj = Inr as" and rows_a: "rows_a = map (attribute_row obj) as"
    by blast
  from methods_rows [OF rm] obtain ms where
    ms: "names_of_methods mkset obj = Inr ms" and rows_m: "rows_m = map (method_row obj) ms"
    by blast
  have m: "set ms = {n \<in> set (dir obj). \<exists>v. getattr obj n = Inr v \<and> callable v}"
    using assms(1) ms by (rule names_of_methods_set)
  from ms obtain names where ms_eq: "ms = mkset names"
    by (auto simp: names_of_methods_def split: sum.splits)
  from as ms have as_eq: "as = mkset (filter (\<lambda>name. name \<notin> set ms) (mkset (dir obj)))"
    by (simp add: attributes_excluding_methods_def all_attributes_def)
  then have sa: "set as = set (dir obj) - set ms" by (auto simp: s)
  have da: "distinct as" and dm: "distinct ms"
    using as_eq ms_eq d by simp_all
  from print_table_succeeds [OF pa] rows_a
  have oa: "out_a = out @ table_lines [''Name'', ''Value''] (map (attribute_row obj) as)"
    by simp
  from print_table_succeeds [OF pm] rows_m
  have om: "out_m = out' @ table_lines [''Name'', ''Description''] (map (method_row obj) ms)"
    by simp
  from sa m have i: "set as \<inter> set ms = {}" and u: "set as \<union> set ms = set (dir obj)"
    by auto
  show ?thesis
    by (intro exI [of _ as] exI [of _ ms] conjI) (fact as ms da dm i u m oa om)+
qed

theorem probes_partition_members_witness:
  "print_attributes_py remdups sample_object [] = (Inr (), [''Name Value'', ''---- -----'', ''unit kWh  ''])
   \<and> print_methods_py remdups sample_object []
       = (Inr (), [''Name         Description    '', ''------------ ---------------'',
                   ''Meter (unit) A sample meter.'', ''fetch (...)                 '',
                   ''read ()      Read the meter.''])
   \<and> attributes_excluding_methods remdups sample_object = Inr [''unit'']
   \<and> names_of_methods remdups sample_object = Inr [''__class__'', ''fetch'', ''read'']
   \<and> set [''unit''] \<inter> set [''__class__'', ''fetch'', ''read''] = {}
   \<and> set [''unit''] \<union> set [''__class__'', ''fetch'', ''read''] = set (dir sample_object)"
proof -
  have a: "print_attributes_py remdups sample_object []
             = (Inr (), [''Name Value'', ''---- -----'', ''unit kWh  ''])"
    by code_simp
  have m: "print_methods_py remdups sample_object []
             = (Inr (), [''Name         Description    '', ''------------ ---------------'',
                         ''Meter (unit) A sample meter.'', ''fetch (...)                 '',
                         ''read ()      Read the meter.''])"
    by code_simp
  have as: "attributes_excluding_methods remdups sample_object = Inr [''unit'']"
    by code_simp
  have ms: "names_of_methods remdups sample_object = Inr [''__class__'', ''fetch'', ''read'']"
    by code_simp
  from probes_partition_members [OF set_model_remdups a m] obtain xs ys where
    "attributes_excluding_methods remdups sample_object = Inr xs"
    "names_of_methods remdups sample_object = Inr ys"
    "set xs \<inter> set ys = {}" "set xs \<union> set ys = set (dir sample_object)"
    by blast
  with as ms
  have "set [''unit''] \<inter> set [''__class__'', ''fetch'', ''read''] = {}
        \<and> set [''unit''] \<union> set [''__class__'', ''fetch'', ''read''] = set (dir sample_object)"
    by simp
  with a m as ms show ?thesis by simp
qed








subsection \<open>Output is appended\<close>

lemma print_table_frame:
  "print_table rows hs out = (fst (print_table rows hs []), out @ snd (print_table rows hs []))"
proof (cases "rows = []")
  case True
  then show ?thesis by (simp add: print_table_def raise_def)
next
  case False
  then show ?thesis
    by (cases "length hs = length (hd rows)")
       (simp_all add: print_table_runs print_table_rejects)
qed

lemma print_attributes_frame:
  "print_attributes_py mkset obj out
     = (fst (print_attributes_py mkset obj []), out @ snd (print_attributes_py mkset obj []))"
  by (cases "attributes_names_and_values mkset obj")
     (simp_all add: print_attributes_py_def raise_def print_table_frame [of _ _ out])

lemma print_methods_frame:
  "print_methods_py mkset obj out
     = (fst (print_methods_py mkset obj []), out @ snd (print_methods_py mkset obj []))"
  by (cases "methods_names_and_docs mkset obj")
     (simp_all add: print_methods_py_def raise_def print_table_frame [of _ _ out])

subsection \<open>Claims about the report\<close>

text \<open>
  C5. When the four probes succeed, the report is, after what was printed before: the
  delimiter and the header \<^verbatim>\<open>Type:\<close> with a line feed, the output of the type probe,
  the delimiter and \<^verbatim>\<open>Documentation:\<close>, the output of the documentation probe, the
  delimiter and \<^verbatim>\<open>Attributes:\<close>, the attributes table, the delimiter and
  \<^verbatim>\<open>Methods:\<close>, the methods table, and a fifth delimiter.
\<close>

theorem print_object_details_layout:
  assumes "print_type obj [] = (Inr (), t)"
    and "print_documentation obj [] = (Inr (), d)"
    and "print_attributes_py mkset obj [] = (Inr (), a)"
    and "print_methods_py mkset obj [] = (Inr (), m)"
  shows "print_object_details mkset obj out
           = (Inr (), out @ [delimiter_line, ''Type:'' @ [CHR 0x0A]] @ t
                          @ [delimiter_line, ''Documentation:'' @ [CHR 0x0A]] @ d
                          @ [delimiter_line, ''Attributes:'' @ [CHR 0x0A]] @ a
                          @ [delimiter_line, ''Methods:'' @ [CHR 0x0A]] @ m
                          @ [delimiter_line])"
proof -
  have t: "print_type obj o1 = (Inr (), o1 @ t)" for o1
    using assms(1) by (auto simp: print_type_def print_def)
  have d: "print_documentation obj o2 = (Inr (), o2 @ d)" for o2
    using assms(2) by (auto simp: print_documentation_def print_def)
  have a: "print_attributes_py mkset obj o3 = (Inr (), o3 @ a)" for o3
    using assms(3) print_attributes_frame [of mkset obj o3] by simp
  have m: "print_methods_py mkset obj o4 = (Inr (), o4 @ m)" for o4
    using assms(4) print_methods_frame [of mkset obj o4] by simp
  show ?thesis
    by (simp add: print_object_details_def print_section_def and_then_def
        print_section_delimiter_def print_def DEFAULT_LENGTH_def delimiter_line_def t d a m)
qed

theorem print_object_details_layout_witness:
  "print_object_details remdups sample_object []
     = (Inr (),
        [delimiter_line, ''Type:'' @ [CHR 0x0A], ''<class Meter>'',
         delimiter_line, ''Documentation:'' @ [CHR 0x0A], ''A sample meter.'',
         delimiter_line, ''Attributes:'' @ [CHR 0x0A],
         ''Name Value'', ''---- -----'', ''unit kWh  '',
         delimiter_line, ''Methods:'' @ [CHR 0x0A],
         ''Name         Description    '', ''------------ ---------------'',
         ''Meter (unit) A sample meter.'', ''fetch (...)                 '',
         ''read ()      Read the meter.'',
         delimiter_line])"
proof -
  have t: "print_type sample_object [] = (Inr (), [''<class Meter>''])"
    by (simp add: print_type_def print_def sample_object_def)
  have d: "print_documentation sample_object [] = (Inr (), [''A sample meter.''])"
    by (simp add: print_documentation_def print_def sample_object_def)
  have a: "print_attributes_py remdups sample_object []
             = (Inr (), [''Name Value'', ''---- -----'', ''unit kWh  ''])"
    by code_simp
  have m: "print_methods_py remdups sample_object []
             = (Inr (), [''Name         Description    '', ''------------ ---------------'',
                         ''Meter (unit) A sample meter.'', ''fetch (...)                 '',
                         ''read ()      Read the meter.''])"
    by code_simp
  from print_object_details_layout [OF t d a m, of "[]"] show ?thesis by simp
qed


text \<open>
  C9. For an object whose string form is \<^verbatim>\<open>Customer\<close> the fill count is 55, and the
  banner is 55 \<^verbatim>\<open>#\<close>, two spaces, the title, two spaces, 55 \<^verbatim>\<open>#\<close> and one more
  \<^verbatim>\<open>#\<close>, 140 characters in all.
\<close>

theorem print_title_customer:
  "print_title (obj\<lparr>str_form := ''Customer''\<rparr>) out
     = (Inr (), out @ [replicate 55 (CHR ''#'') @ ''  '' @ ''Object '' @ [CHR 0x22] @ ''Customer''
                        @ [CHR 0x22] @ '' details'' @ ''  '' @ replicate 55 (CHR ''#'')
                        @ replicate 1 (CHR ''#'')])
   \<and> (int DEFAULT_LENGTH - 4
        - int (length (''Object '' @ [CHR 0x22] @ ''Customer'' @ [CHR 0x22] @ '' details''))) div 2
       = 55
   \<and> length (replicate 55 (CHR ''#'') @ ''  '' @ ''Object '' @ [CHR 0x22] @ ''Customer''
               @ [CHR 0x22] @ '' details'' @ ''  '' @ replicate 55 (CHR ''#'')
               @ replicate 1 (CHR ''#'')) = 140"
  by (simp add: print_title_def DEFAULT_LENGTH_def print_def Let_def)

end
